theory Spec2Isabelle
  imports Main "HOL-Library.Sublist"
begin

section \<open>Go values: errors and panics\<close>

text \<open>
  An \<open>error\<close> of Go is modelled by its message; the \<open>nil\<close> error is \<open>None\<close> of
  \<open>go_error option\<close>. A call that can panic returns an \<open>outcome\<close>: \<open>Ret v\<close> when it
  returns \<open>v\<close>, \<open>Panic m\<close> when the goroutine panics (which ends the whole program).
\<close>

type_synonym go_error = string

datatype 'a outcome = Ret 'a | Panic string

section \<open>Protocol (client.go)\<close>

text \<open>
  \<open>type Protocol int\<close> with the constants \<open>HTTP\<close>, \<open>TCP\<close>, \<open>TLS\<close> numbered by
  \<open>iota\<close>. The type is an integer type, so every machine integer is a value of it; no
  arithmetic is done on it, so the model takes the integers.
\<close>

type_synonym Protocol = int

definition HTTP :: Protocol where "HTTP = 0"
definition TCP :: Protocol where "TCP = 1"
definition TLS :: Protocol where "TLS = 2"

definition protocols :: "string list" where
  "protocols = [''http'', ''tcp'', ''tls'']"

text \<open>
  \<open>func (p Protocol) String() string { return protocols[p] }\<close>: indexing the
  three-element array with an index outside \<open>0..2\<close> is a run-time panic.
\<close>

definition Protocol_String :: "Protocol \<Rightarrow> string outcome" where
  "Protocol_String p =
     (if 0 \<le> p \<and> p < int (length protocols) then Ret (protocols ! nat p)
      else Panic ''runtime error: index out of range'')"

section \<open>Tunnel descriptors and the control API (tunnel.go)\<close>

record Tunnel =
  Proto :: Protocol
  Name :: string
  LocalAddress :: string
  Auth :: string
  Inspect :: bool
  RemoteAddress :: string
  IsCreated :: bool

text \<open>
  Modelled from the spec: the struct \<open>responseCreateTunnel\<close> is declared in neither
  \<open>client.go\<close> nor \<open>tunnel.go\<close>; \<open>CreateTunnel\<close> reads only its field \<open>PublicURL\<close>,
  the ``public-URL field'' of the response body, which the JSON decoder leaves empty when
  the body has no such field.
\<close>

record responseCreateTunnel =
  PublicURL :: string

datatype json_value = JString string | JBool bool

record http_Response =
  StatusCode :: int
  Body :: string

record http_Request =
  Method :: string
  URL :: string

text \<open>
  What one call of \<open>CreateTunnel\<close> or \<open>CloseTunnel\<close> sees of the outside world: the
  library calls it makes, as functions. \<open>http_Post\<close> and \<open>client_Do\<close> take the number of
  the attempt that makes the call, so that the control API may answer every attempt
  differently.
\<close>

record env =
  json_Marshal :: "(string \<times> json_value) list \<Rightarrow> go_error + string"
  http_Post :: "nat \<Rightarrow> string \<Rightarrow> string \<Rightarrow> go_error + http_Response"
  json_Decode :: "string \<Rightarrow> go_error + responseCreateTunnel"
  http_NewRequest :: "string \<Rightarrow> string \<Rightarrow> go_error + http_Request"
  client_Do :: "nat \<Rightarrow> http_Request \<Rightarrow> go_error + http_Response"

text \<open>The observable effects of the calls, in the order in which they happen.\<close>

datatype event =
    LogCreatingAttempt nat
  | Sleep nat
  | HttpPost string string
  | LogTunnelCreated string string
  | LogClosingTunnel string
  | HttpDo http_Request
  | LogTunnelClosed string
  | LogPrintln string
  | GoCreateTunnel nat
  | GoCloseTunnel nat

record os_Process =
  Pid :: int

record exec_Cmd =
  Path :: string
  Args :: "string list"
  Process :: "os_Process option"

record Options =
  SubDomain :: string
  AuthToken :: string
  Region :: string
  ConfigPath :: string
  BinaryPath :: string
  LogBinary :: bool
  IgnoreSignals :: bool

text \<open>
  The \<open>Client\<close>. Its \<open>Tunnel\<close> field is a slice of pointers: a pointer is an address
  (a natural number) into a heap of descriptors, so that the same descriptor may be
  registered twice. \<open>runningCmd\<close> is a pointer that is \<open>nil\<close> (\<open>None\<close>) until
  \<open>StartServer\<close> sets it.
\<close>

record Client =
  Options :: Options
  Tunnel :: "nat list"
  WebUIAddress :: string
  LogApi :: bool
  commands :: "string list"
  runningCmd :: "exec_Cmd option"

definition maxRetries :: nat where
  "maxRetries = 100"

text \<open>
  The request body of \<open>CreateTunnel\<close>: the map \<open>jsonData\<close>, with the key
  \<open>bind_tls\<close> added when the protocol name is \<open>http\<close>.
\<close>

definition jsonData_of :: "string \<Rightarrow> Tunnel \<Rightarrow> (string \<times> json_value) list" where
  "jsonData_of proto t =
     (let jsonData = [(''addr'', JString (LocalAddress t)), (''proto'', JString proto),
                      (''name'', JString (Name t)), (''inspect'', JBool (Inspect t)),
                      (''auth'', JString (Auth t))]
      in if proto = ''http'' then jsonData @ [(''bind_tls'', JBool True)] else jsonData)"

text \<open>The body of the closure that \<open>CreateTunnel\<close> runs once per attempt.\<close>

definition create_attempt ::
  "Client \<Rightarrow> env \<Rightarrow> nat \<Rightarrow> Tunnel \<Rightarrow> (go_error option) outcome \<times> Tunnel \<times> event list" where
  "create_attempt c e attempt t =
     (let ev = [LogCreatingAttempt attempt, Sleep 1] in
      case Protocol_String (Proto t) of
        Panic m \<Rightarrow> (Panic m, t, ev)
      | Ret proto \<Rightarrow>
         (let jsonData = jsonData_of proto t;
              url = ''http://'' @ WebUIAddress c @ ''/api/tunnels''
          in case json_Marshal e jsonData of
               Inl err \<Rightarrow> (Ret (Some err), t, ev)
             | Inr jsonValue \<Rightarrow>
                 (case http_Post e attempt url jsonValue of
                    Inl err \<Rightarrow> (Ret (Some err), t, ev @ [HttpPost url jsonValue])
                  | Inr res \<Rightarrow>
                      (if StatusCode res < 200 \<or> StatusCode res > 299
                       then (Ret (Some (''error api: '' @ Body res)), t,
                             ev @ [HttpPost url jsonValue])
                       else (case json_Decode e (Body res) of
                               Inl err \<Rightarrow> (Ret (Some err), t, ev @ [HttpPost url jsonValue])
                             | Inr record \<Rightarrow>
                                 (let t' = t\<lparr>RemoteAddress := PublicURL record,
                                              IsCreated := True\<rparr>
                                  in (Ret None, t',
                                      ev @ [HttpPost url jsonValue,
                                            LogTunnelCreated (Name t') (RemoteAddress t')])))))))"

text \<open>
  The loop \<open>for attempt := uint(0); attempt <= maxRetries; attempt++\<close> of
  \<open>CreateTunnel\<close>. \<open>err\<close> is the named result, which an attempt overwrites and the
  function returns when the loop ends.
\<close>

function CreateTunnel_loop ::
  "Client \<Rightarrow> env \<Rightarrow> nat \<Rightarrow> go_error option \<Rightarrow> Tunnel
     \<Rightarrow> (go_error option) outcome \<times> Tunnel \<times> event list" where
  "CreateTunnel_loop c e attempt err t =
     (if attempt \<le> maxRetries then
        (case create_attempt c e attempt t of
           (Panic m, t', ev) \<Rightarrow> (Panic m, t', ev)
         | (Ret err', t', ev) \<Rightarrow>
             (let ev' = (case err' of
                           Some x \<Rightarrow> if LogApi c then ev @ [LogPrintln x] else ev
                         | None \<Rightarrow> ev)
              in if err' = None then (Ret err', t', ev')
                 else (case CreateTunnel_loop c e (attempt + 1) err' t' of
                         (r, t'', ev'') \<Rightarrow> (r, t'', ev' @ ev''))))
      else (Ret err, t, []))"
  by pat_completeness auto
termination
  by (relation "measure (\<lambda>(c, e, attempt, err, t). maxRetries + 1 - attempt)") auto

declare CreateTunnel_loop.simps [simp del]

definition CreateTunnel ::
  "Client \<Rightarrow> env \<Rightarrow> Tunnel \<Rightarrow> (go_error option) outcome \<times> Tunnel \<times> event list" where
  "CreateTunnel c e t = CreateTunnel_loop c e 0 None t"

text \<open>The body of the closure that \<open>CloseTunnel\<close> runs once per attempt.\<close>

definition close_attempt ::
  "Client \<Rightarrow> env \<Rightarrow> nat \<Rightarrow> Tunnel \<Rightarrow> go_error option \<times> Tunnel \<times> event list" where
  "close_attempt c e attempt t =
     (let ev = [LogClosingTunnel (RemoteAddress t)];
          url = ''http://'' @ WebUIAddress c @ ''/api/tunnels/'' @ Name t
      in case http_NewRequest e ''DELETE'' url of
           Inl err \<Rightarrow> (Some err, t, ev @ [LogPrintln err])
         | Inr req \<Rightarrow>
             (case client_Do e attempt req of
                Inl err \<Rightarrow> (Some err, t, ev @ [HttpDo req, LogPrintln err])
              | Inr res \<Rightarrow>
                  (if StatusCode res < 200 \<or> StatusCode res > 299
                   then (Some (''error api: '' @ Body res), t, ev @ [HttpDo req])
                   else (let t' = t\<lparr>RemoteAddress := [], IsCreated := False\<rparr>
                         in (None, t', ev @ [HttpDo req, LogTunnelClosed (Name t')])))))"

function CloseTunnel_loop ::
  "Client \<Rightarrow> env \<Rightarrow> nat \<Rightarrow> go_error option \<Rightarrow> Tunnel
     \<Rightarrow> go_error option \<times> Tunnel \<times> event list" where
  "CloseTunnel_loop c e attempt err t =
     (if attempt \<le> maxRetries then
        (case close_attempt c e attempt t of
           (err', t', ev) \<Rightarrow>
             (let ev' = (case err' of
                           Some x \<Rightarrow> if LogApi c then ev @ [LogPrintln x] else ev
                         | None \<Rightarrow> ev)
              in if err' = None then (err', t', ev')
                 else (case CloseTunnel_loop c e (attempt + 1) err' t' of
                         (r, t'', ev'') \<Rightarrow> (r, t'', ev' @ ev''))))
      else (err, t, []))"
  by pat_completeness auto
termination
  by (relation "measure (\<lambda>(c, e, attempt, err, t). maxRetries + 1 - attempt)") auto

declare CloseTunnel_loop.simps [simp del]

definition CloseTunnel ::
  "Client \<Rightarrow> env \<Rightarrow> Tunnel \<Rightarrow> go_error option \<times> Tunnel \<times> event list" where
  "CloseTunnel c e t = CloseTunnel_loop c e 0 None t"

text \<open>
  The attempts a trace of events holds: every attempt of \<open>CreateTunnel\<close> starts with
  its log line \<open>Creating tunnel %d attempt\<close>, every attempt of \<open>CloseTunnel\<close> with its
  log line \<open>Closing tunnel in ...\<close>.
\<close>

fun is_create_attempt :: "event \<Rightarrow> bool" where
  "is_create_attempt (LogCreatingAttempt n) = True"
| "is_create_attempt _ = False"

fun is_close_attempt :: "event \<Rightarrow> bool" where
  "is_close_attempt (LogClosingTunnel a) = True"
| "is_close_attempt _ = False"

definition create_attempts :: "event list \<Rightarrow> nat" where
  "create_attempts ev = length (filter is_create_attempt ev)"

definition close_attempts :: "event list \<Rightarrow> nat" where
  "close_attempts ev = length (filter is_close_attempt ev)"

section \<open>Failing control APIs, the descriptor invariant and sample inputs\<close>

text \<open>
  A control API whose every create attempt fails: whatever is posted, and at whichever
  attempt, the call fails in transport, or the answer is not 2xx, or its body does not
  decode. Likewise for destroy.
\<close>

definition api_create_fails :: "env \<Rightarrow> bool" where
  "api_create_fails e =
     (\<forall>i url body. case http_Post e i url body of
        Inl err \<Rightarrow> True
      | Inr res \<Rightarrow> StatusCode res < 200 \<or> StatusCode res > 299 \<or>
                  (\<exists>err. json_Decode e (Body res) = Inl err))"

definition api_close_fails :: "env \<Rightarrow> bool" where
  "api_close_fails e =
     (\<forall>i req. case client_Do e i req of
        Inl err \<Rightarrow> True
      | Inr res \<Rightarrow> StatusCode res < 200 \<or> StatusCode res > 299)"


subsection \<open>Sample inputs\<close>

definition sample_options :: Options where
  "sample_options = \<lparr>SubDomain = [], AuthToken = [], Region = ''us'', ConfigPath = [],
     BinaryPath = ''../ngrok-bin/ngrok_linux'', LogBinary = False, IgnoreSignals = False\<rparr>"

definition sample_client :: Client where
  "sample_client = \<lparr>Options = sample_options, Tunnel = [], WebUIAddress = ''127.0.0.1:4040'',
     LogApi = True, commands = [], runningCmd = None\<rparr>"

definition sample_tunnel :: Tunnel where
  "sample_tunnel = \<lparr>Proto = HTTP, Name = ''awesome'', LocalAddress = ''4040'',
     Auth = ''username:password'', Inspect = False, RemoteAddress = [], IsCreated = False\<rparr>"

text \<open>A control API that refuses every connection.\<close>

definition env_down :: env where
  "env_down = \<lparr>json_Marshal = (\<lambda>d. Inr ''{}''),
     http_Post = (\<lambda>i url body. Inl ''connection refused''),
     json_Decode = (\<lambda>b. Inl ''EOF''),
     http_NewRequest = (\<lambda>m u. Inr \<lparr>Method = m, URL = u\<rparr>),
     client_Do = (\<lambda>i req. Inl ''connection refused'')\<rparr>"

text \<open>
  A control API that answers 500 to the attempts 0, 1 and 2 and 2xx from then on, with
  a public URL in the body.
\<close>

definition env_flaky :: env where
  "env_flaky = \<lparr>json_Marshal = (\<lambda>d. Inr ''{}''),
     http_Post = (\<lambda>i url body. if i < 3 then Inr \<lparr>StatusCode = 500, Body = ''busy''\<rparr>
                                 else Inr \<lparr>StatusCode = 201, Body = ''ok''\<rparr>),
     json_Decode = (\<lambda>b. Inr \<lparr>PublicURL = ''https://a.ngrok.io''\<rparr>),
     http_NewRequest = (\<lambda>m u. Inr \<lparr>Method = m, URL = u\<rparr>),
     client_Do = (\<lambda>i req. if i < 3 then Inr \<lparr>StatusCode = 500, Body = ''busy''\<rparr>
                             else Inr \<lparr>StatusCode = 204, Body = []\<rparr>)\<rparr>"


section \<open>The tunnel registry (client.go)\<close>

text \<open>
  The descriptors live in a heap; the registry \<open>c.Tunnel\<close> holds their addresses, in
  the order in which \<open>AddTunnel\<close> appended them.
\<close>

type_synonym heap = "nat \<Rightarrow> Tunnel"

definition AddTunnel :: "Client \<Rightarrow> nat \<Rightarrow> Client \<times> event list" where
  "AddTunnel c t = (c\<lparr>Tunnel := Tunnel c @ [t]\<rparr>, [LogPrintln ''Add tunnel''])"

text \<open>
  \<open>ConnectAll\<close> starts one goroutine per descriptor whose \<open>IsCreated\<close> is false and
  waits for all of them. The goroutine started in iteration \<open>i\<close> gets the pointer as its
  argument \<open>x\<close> and sees the outside world \<open>envs i\<close>. The model runs the dispatch loop
  first and then the goroutines to completion, one after the other in the order in which
  they were started (\<open>CreateTunnel\<close> sleeps a second before it does anything else); a
  goroutine that panics ends the program. \<open>GoCreateTunnel x\<close> marks the call
  \<open>c.CreateTunnel(x)\<close> in the trace.
\<close>

fun run_creates ::
  "Client \<Rightarrow> (nat \<Rightarrow> env) \<Rightarrow> (nat \<times> nat) list \<Rightarrow> heap \<Rightarrow> unit outcome \<times> heap \<times> event list" where
  "run_creates c envs [] h = (Ret (), h, [])"
| "run_creates c envs ((i, x) # gs) h =
     (case CreateTunnel c (envs i) (h x) of
        (Panic m, t', ev) \<Rightarrow> (Panic m, h(x := t'), GoCreateTunnel x # ev)
      | (Ret err, t', ev) \<Rightarrow>
          (case run_creates c envs gs (h(x := t')) of
             (r, h', ev') \<Rightarrow> (r, h', GoCreateTunnel x # ev @ ev')))"

definition ConnectAll ::
  "Client \<Rightarrow> (nat \<Rightarrow> env) \<Rightarrow> heap \<Rightarrow> (go_error option) outcome \<times> heap \<times> event list" where
  "ConnectAll c envs h =
     (if length (Tunnel c) < 1
      then (Ret (Some ''need at least 1 tunnel to connect''), h, [LogPrintln ''Connecting''])
      else (let spawned = [(i, Tunnel c ! i). i \<leftarrow> [0..<length (Tunnel c)],
                             \<not> IsCreated (h (Tunnel c ! i))]
            in case run_creates c envs spawned h of
                 (Panic m, h', ev) \<Rightarrow> (Panic m, h', LogPrintln ''Connecting'' # ev)
               | (Ret u, h', ev) \<Rightarrow> (Ret None, h', LogPrintln ''Connecting'' # ev)))"

text \<open>
  \<open>DisconnectAll\<close> starts one goroutine per descriptor whose \<open>IsCreated\<close> is true, but
  its goroutine is a closure over the loop variable \<open>t\<close> itself: \<open>go func() {
  c.CloseTunnel(t); wg.Done() }()\<close>. Under the range-loop semantics of Go before 1.22
  (the ones that apply to a package without a \<open>go\<close> directive of 1.22 or later) the
  loop has one variable \<open>t\<close> for all its iterations, and the goroutine reads it when it
  runs, not when it is started. \<open>lag i\<close> is the number of iterations by which the loop
  has advanced when the goroutine started in iteration \<open>i\<close> reads \<open>t\<close>; after the last
  iteration \<open>t\<close> keeps the last pointer of the registry. As in \<open>ConnectAll\<close>, the
  goroutines run to completion one after the other once the dispatch loop is over.
\<close>

fun run_closes ::
  "Client \<Rightarrow> (nat \<Rightarrow> env) \<Rightarrow> (nat \<times> nat) list \<Rightarrow> heap \<Rightarrow> heap \<times> event list" where
  "run_closes c envs [] h = (h, [])"
| "run_closes c envs ((i, x) # gs) h =
     (case CloseTunnel c (envs i) (h x) of
        (err, t', ev) \<Rightarrow>
          (case run_closes c envs gs (h(x := t')) of
             (h', ev') \<Rightarrow> (h', GoCloseTunnel x # ev @ ev')))"

definition DisconnectAll ::
  "Client \<Rightarrow> (nat \<Rightarrow> nat) \<Rightarrow> (nat \<Rightarrow> env) \<Rightarrow> heap \<Rightarrow> go_error option \<times> heap \<times> event list" where
  "DisconnectAll c lag envs h =
     (if length (Tunnel c) < 1
      then (Some ''need at least 1 tunnel to disconnect'', h, [LogPrintln ''Disconnecting''])
      else (let n = length (Tunnel c);
                spawned = [(i, Tunnel c ! min (i + lag i) (n - 1)). i \<leftarrow> [0..<n],
                             IsCreated (h (Tunnel c ! i))]
            in case run_closes c envs spawned h of
                 (h', ev) \<Rightarrow> (None, h', LogPrintln ''Disconnecting'' # ev)))"

text \<open>The calls to the control API in a trace, and the descriptors passed to the goroutines.\<close>

fun is_network_call :: "event \<Rightarrow> bool" where
  "is_network_call (HttpPost url body) = True"
| "is_network_call (HttpDo req) = True"
| "is_network_call _ = False"

fun created_calls :: "event list \<Rightarrow> nat list" where
  "created_calls [] = []"
| "created_calls (GoCreateTunnel x # ev) = x # created_calls ev"
| "created_calls (_ # ev) = created_calls ev"

fun closed_calls :: "event list \<Rightarrow> nat list" where
  "closed_calls [] = []"
| "closed_calls (GoCloseTunnel x # ev) = x # closed_calls ev"
| "closed_calls (_ # ev) = closed_calls ev"

section \<open>Terminating and signalling the subprocess (client.go)\<close>

text \<open>
  \<open>Close\<close> is \<open>return c.runningCmd.Process.Kill()\<close> and \<open>Signal\<close> is \<open>return
  c.runningCmd.Process.Signal(signal)\<close>. Reading the field \<open>Process\<close> through the nil
  pointer \<open>c.runningCmd\<close> is a run-time panic. The two methods of \<open>os.Process\<close> are
  parameters: they get the pointer \<open>Process\<close> as it is.
\<close>

definition nil_dereference :: string where
  "nil_dereference = ''runtime error: invalid memory address or nil pointer dereference''"

definition Close ::
  "(os_Process option \<Rightarrow> (go_error option) outcome) \<Rightarrow> Client \<Rightarrow> (go_error option) outcome" where
  "Close Process_Kill c =
     (case runningCmd c of
        None \<Rightarrow> Panic nil_dereference
      | Some cmd \<Rightarrow> Process_Kill (Process cmd))"

definition Signal ::
  "(os_Process option \<Rightarrow> int \<Rightarrow> (go_error option) outcome) \<Rightarrow> Client \<Rightarrow> int
     \<Rightarrow> (go_error option) outcome" where
  "Signal Process_Signal c signal =
     (case runningCmd c of
        None \<Rightarrow> Panic nil_dereference
      | Some cmd \<Rightarrow> Process_Signal (Process cmd) signal)"

subsection \<open>Sample registries\<close>

text \<open>A control API that answers 2xx to every request, with a public URL in the body.\<close>

definition env_up :: env where
  "env_up = \<lparr>json_Marshal = (\<lambda>d. Inr ''{}''),
     http_Post = (\<lambda>i url body. Inr \<lparr>StatusCode = 201, Body = ''ok''\<rparr>),
     json_Decode = (\<lambda>b. Inr \<lparr>PublicURL = ''https://a.ngrok.io''\<rparr>),
     http_NewRequest = (\<lambda>m u. Inr \<lparr>Method = m, URL = u\<rparr>),
     client_Do = (\<lambda>i req. Inr \<lparr>StatusCode = 204, Body = []\<rparr>)\<rparr>"

text \<open>
  A registry of two descriptors: \<open>a\<close> (HTTP, local \<open>127.0.0.1:4040\<close>) at address 0 and
  \<open>b\<close> (TCP, local \<open>127.0.0.1:22\<close>) at address 1, before and after their creation.
\<close>

definition sample_registry :: Client where
  "sample_registry = sample_client\<lparr>Tunnel := [0, 1]\<rparr>"

definition sample_heap :: heap where
  "sample_heap x =
     (if x = 0 then sample_tunnel\<lparr>Name := ''a'', LocalAddress := ''127.0.0.1:4040''\<rparr>
      else sample_tunnel\<lparr>Proto := TCP, Name := ''b'', LocalAddress := ''127.0.0.1:22''\<rparr>)"

definition sample_heap_created :: heap where
  "sample_heap_created x =
     (sample_heap x)\<lparr>RemoteAddress := ''https://a.ngrok.io'', IsCreated := True\<rparr>"

section \<open>The readiness scanner (client.go)\<close>

subsection \<open>Regular expressions\<close>










subsection \<open>The patterns\<close>






subsection \<open>The read loop of \<open>StartServer\<close>\<close>



datatype scan_event = ClientBinLog string | ServerClientReady | IsReadySend




definition ready_sends :: "scan_event list \<Rightarrow> nat" where
  "ready_sends ev = length (filter (\<lambda>x. x = IsReadySend) ev)"





section \<open>The retry loops, one iteration at a time\<close>

lemma create_attempts_append [simp]:
  "create_attempts (xs @ ys) = create_attempts xs + create_attempts ys"
  by (simp add: create_attempts_def)

lemma create_attempts_simps [simp]:
  "create_attempts [] = 0" "create_attempts (LogPrintln x # ev) = create_attempts ev"
  by (simp_all add: create_attempts_def)

lemma create_attempt_events:
  "create_attempts (snd (snd (create_attempt c e i t))) = 1"
  by (simp add: create_attempt_def create_attempts_def Let_def
      split: outcome.split sum.split)

lemma create_attempt_unchanged:
  "fst (create_attempt c e i t) \<noteq> Ret None \<Longrightarrow> fst (snd (create_attempt c e i t)) = t"
  by (auto simp add: create_attempt_def Let_def split: outcome.splits sum.splits if_splits)

lemma create_attempt_success:
  "fst (create_attempt c e i t) = Ret None \<Longrightarrow>
   \<exists>body record. json_Decode e body = Inr record \<and>
     fst (snd (create_attempt c e i t)) = t\<lparr>RemoteAddress := PublicURL record, IsCreated := True\<rparr>"
  by (auto simp add: create_attempt_def Let_def split: outcome.splits sum.splits if_splits)

text \<open>One iteration of the loop, by the outcome of its attempt.\<close>

lemma CreateTunnel_loop_fail_step:
  assumes "a \<le> maxRetries" "fst (create_attempt c e a t) = Ret (Some x)"
  shows "fst (CreateTunnel_loop c e a err t) = fst (CreateTunnel_loop c e (a + 1) (Some x) t) \<and>
         fst (snd (CreateTunnel_loop c e a err t)) = fst (snd (CreateTunnel_loop c e (a + 1) (Some x) t)) \<and>
         create_attempts (snd (snd (CreateTunnel_loop c e a err t))) =
           1 + create_attempts (snd (snd (CreateTunnel_loop c e (a + 1) (Some x) t)))"
proof -
  have u: "fst (snd (create_attempt c e a t)) = t"
    using create_attempt_unchanged [of c e a t] assms(2) by simp
  obtain ev where p: "create_attempt c e a t = (Ret (Some x), t, ev)"
    using assms(2) u by (cases "create_attempt c e a t") auto
  have n: "create_attempts ev = 1"
    using create_attempt_events [of c e a t] p by simp
  have step: "CreateTunnel_loop c e a err t =
      (case CreateTunnel_loop c e (a + 1) (Some x) t of
         (r, t'', ev'') \<Rightarrow> (r, t'', (if LogApi c then ev @ [LogPrintln x] else ev) @ ev''))"
    using assms(1) p by (subst CreateTunnel_loop.simps) (simp add: Let_def)
  show ?thesis
    unfolding step using n by (simp add: split_beta)
qed

lemma CreateTunnel_loop_stop_step:
  assumes "a \<le> maxRetries"
    "\<forall>x. fst (create_attempt c e a t) \<noteq> Ret (Some x)"
  shows "fst (CreateTunnel_loop c e a err t) = fst (create_attempt c e a t) \<and>
         fst (snd (CreateTunnel_loop c e a err t)) = fst (snd (create_attempt c e a t)) \<and>
         create_attempts (snd (snd (CreateTunnel_loop c e a err t))) = 1"
proof -
  obtain r t' ev where p: "create_attempt c e a t = (r, t', ev)"
    by (cases "create_attempt c e a t") auto
  have n: "create_attempts ev = 1"
    using create_attempt_events [of c e a t] p by simp
  show ?thesis
  proof (cases r)
    case (Panic m)
    then show ?thesis using assms(1) p n
      by (subst (1 2 3) CreateTunnel_loop.simps) simp
  next
    case (Ret err')
    with assms(2) p have "err' = None" by (cases err') auto
    then show ?thesis using assms(1) p n Ret
      by (subst (1 2 3) CreateTunnel_loop.simps) simp
  qed
qed

lemma CreateTunnel_loop_end:
  "\<not> a \<le> maxRetries \<Longrightarrow> CreateTunnel_loop c e a err t = (Ret err, t, [])"
  by (subst CreateTunnel_loop.simps) simp


lemma CreateTunnel_loop_all_fail:
  assumes "\<forall>i. a \<le> i \<and> i \<le> maxRetries \<longrightarrow> (\<exists>x. fst (create_attempt c e i t) = Ret (Some x))"
    and "a \<le> maxRetries"
  shows "fst (CreateTunnel_loop c e a err t) = fst (create_attempt c e maxRetries t) \<and>
         fst (snd (CreateTunnel_loop c e a err t)) = t \<and>
         create_attempts (snd (snd (CreateTunnel_loop c e a err t))) = maxRetries + 1 - a"
  using assms
proof (induction "maxRetries - a" arbitrary: a err)
  case 0
  then have a: "a = maxRetries" by simp
  from "0.prems" a obtain x where x: "fst (create_attempt c e maxRetries t) = Ret (Some x)"
    by blast
  show ?case
    using CreateTunnel_loop_fail_step [of maxRetries c e t x err] x
      CreateTunnel_loop_end [of "maxRetries + 1" c e "Some x" t]
    unfolding a by simp
next
  case (Suc n)
  then have lt: "a < maxRetries" by simp
  from Suc.prems obtain x where x: "fst (create_attempt c e a t) = Ret (Some x)"
    by blast
  have ih: "fst (CreateTunnel_loop c e (a + 1) (Some x) t) = fst (create_attempt c e maxRetries t) \<and>
         fst (snd (CreateTunnel_loop c e (a + 1) (Some x) t)) = t \<and>
         create_attempts (snd (snd (CreateTunnel_loop c e (a + 1) (Some x) t))) = maxRetries + 1 - (a + 1)"
    using Suc.hyps(1) [of "a + 1" "Some x"] Suc.hyps(2) Suc.prems lt by auto
  show ?case
    using CreateTunnel_loop_fail_step [of a c e t x err] x ih lt by simp
qed

lemma CreateTunnel_loop_first_stop:
  assumes "\<forall>i. a \<le> i \<and> i < k \<longrightarrow> (\<exists>x. fst (create_attempt c e i t) = Ret (Some x))"
    and "\<forall>x. fst (create_attempt c e k t) \<noteq> Ret (Some x)"
    and "a \<le> k" "k \<le> maxRetries"
  shows "fst (CreateTunnel_loop c e a err t) = fst (create_attempt c e k t) \<and>
         fst (snd (CreateTunnel_loop c e a err t)) = fst (snd (create_attempt c e k t)) \<and>
         create_attempts (snd (snd (CreateTunnel_loop c e a err t))) = k + 1 - a"
  using assms
proof (induction "k - a" arbitrary: a err)
  case 0
  then have a: "a = k" by simp
  show ?case
    using CreateTunnel_loop_stop_step [of k c e t err] "0.prems" unfolding a by simp
next
  case (Suc n)
  then have lt: "a < k" by simp
  from Suc.prems lt obtain x where x: "fst (create_attempt c e a t) = Ret (Some x)"
    by blast
  have ih: "fst (CreateTunnel_loop c e (a + 1) (Some x) t) = fst (create_attempt c e k t) \<and>
         fst (snd (CreateTunnel_loop c e (a + 1) (Some x) t)) = fst (snd (create_attempt c e k t)) \<and>
         create_attempts (snd (snd (CreateTunnel_loop c e (a + 1) (Some x) t))) = k + 1 - (a + 1)"
    using Suc.hyps(1) [of "a + 1" "Some x"] Suc.hyps(2) Suc.prems lt by auto
  show ?case
    using CreateTunnel_loop_fail_step [of a c e t x err] x ih lt Suc.prems(4) by simp
qed

text \<open>An error is returned only when every attempt has failed.\<close>

lemma CreateTunnel_error_all_fail:
  assumes "fst (CreateTunnel c e t) = Ret (Some x)"
  shows "\<forall>i. i \<le> maxRetries \<longrightarrow> (\<exists>y. fst (create_attempt c e i t) = Ret (Some y))"
proof (rule ccontr)
  assume "\<not> ?thesis"
  then have ex: "\<exists>i. i \<le> maxRetries \<and> (\<forall>y. fst (create_attempt c e i t) \<noteq> Ret (Some y))"
    by blast
  define k where "k = (LEAST i. i \<le> maxRetries \<and> (\<forall>y. fst (create_attempt c e i t) \<noteq> Ret (Some y)))"
  have k: "k \<le> maxRetries \<and> (\<forall>y. fst (create_attempt c e k t) \<noteq> Ret (Some y))"
    unfolding k_def using ex by (rule LeastI_ex)
  have least: "\<And>i. i < k \<Longrightarrow> \<not> (i \<le> maxRetries \<and> (\<forall>y. fst (create_attempt c e i t) \<noteq> Ret (Some y)))"
    unfolding k_def by (rule not_less_Least)
  have before: "\<forall>i. 0 \<le> i \<and> i < k \<longrightarrow> (\<exists>y. fst (create_attempt c e i t) = Ret (Some y))"
    using least k by (metis le_trans less_imp_le_nat)
  have "fst (CreateTunnel c e t) = fst (create_attempt c e k t)"
    using CreateTunnel_loop_first_stop [of 0 k c e t None] before k
    by (simp add: CreateTunnel_def)
  with assms k show False by simp
qed


lemma close_attempts_append [simp]:
  "close_attempts (xs @ ys) = close_attempts xs + close_attempts ys"
  by (simp add: close_attempts_def)

lemma close_attempts_simps [simp]:
  "close_attempts [] = 0" "close_attempts (LogPrintln x # ev) = close_attempts ev"
  by (simp_all add: close_attempts_def)

lemma close_attempt_events:
  "close_attempts (snd (snd (close_attempt c e i t))) = 1"
  by (simp add: close_attempt_def close_attempts_def Let_def split: sum.split)

lemma close_attempt_unchanged:
  "fst (close_attempt c e i t) \<noteq> None \<Longrightarrow> fst (snd (close_attempt c e i t)) = t"
  by (auto simp add: close_attempt_def Let_def split: sum.splits if_splits)

lemma close_attempt_success:
  "fst (close_attempt c e i t) = None \<Longrightarrow>
   fst (snd (close_attempt c e i t)) = t\<lparr>RemoteAddress := [], IsCreated := False\<rparr>"
  by (auto simp add: close_attempt_def Let_def split: sum.splits if_splits)

lemma CloseTunnel_loop_fail_step:
  assumes "a \<le> maxRetries" "fst (close_attempt c e a t) = Some x"
  shows "fst (CloseTunnel_loop c e a err t) = fst (CloseTunnel_loop c e (a + 1) (Some x) t) \<and>
         fst (snd (CloseTunnel_loop c e a err t)) = fst (snd (CloseTunnel_loop c e (a + 1) (Some x) t)) \<and>
         close_attempts (snd (snd (CloseTunnel_loop c e a err t))) =
           1 + close_attempts (snd (snd (CloseTunnel_loop c e (a + 1) (Some x) t)))"
proof -
  have u: "fst (snd (close_attempt c e a t)) = t"
    using close_attempt_unchanged [of c e a t] assms(2) by simp
  obtain ev where p: "close_attempt c e a t = (Some x, t, ev)"
    using assms(2) u by (cases "close_attempt c e a t") auto
  have n: "close_attempts ev = 1"
    using close_attempt_events [of c e a t] p by simp
  have step: "CloseTunnel_loop c e a err t =
      (case CloseTunnel_loop c e (a + 1) (Some x) t of
         (r, t'', ev'') \<Rightarrow> (r, t'', (if LogApi c then ev @ [LogPrintln x] else ev) @ ev''))"
    using assms(1) p by (subst CloseTunnel_loop.simps) (simp add: Let_def)
  show ?thesis
    unfolding step using n by (simp add: split_beta)
qed

lemma CloseTunnel_loop_stop_step:
  assumes "a \<le> maxRetries" "fst (close_attempt c e a t) = None"
  shows "fst (CloseTunnel_loop c e a err t) = None \<and>
         fst (snd (CloseTunnel_loop c e a err t)) = fst (snd (close_attempt c e a t)) \<and>
         close_attempts (snd (snd (CloseTunnel_loop c e a err t))) = 1"
proof -
  obtain t' ev where p: "close_attempt c e a t = (None, t', ev)"
    using assms(2) by (cases "close_attempt c e a t") auto
  have n: "close_attempts ev = 1"
    using close_attempt_events [of c e a t] p by simp
  show ?thesis using assms(1) p n
    by (subst (1 2 3) CloseTunnel_loop.simps) simp
qed

lemma CloseTunnel_loop_end:
  "\<not> a \<le> maxRetries \<Longrightarrow> CloseTunnel_loop c e a err t = (err, t, [])"
  by (subst CloseTunnel_loop.simps) simp

lemma CloseTunnel_loop_all_fail:
  assumes "\<forall>i. a \<le> i \<and> i \<le> maxRetries \<longrightarrow> fst (close_attempt c e i t) \<noteq> None"
    and "a \<le> maxRetries"
  shows "fst (CloseTunnel_loop c e a err t) = fst (close_attempt c e maxRetries t) \<and>
         fst (snd (CloseTunnel_loop c e a err t)) = t \<and>
         close_attempts (snd (snd (CloseTunnel_loop c e a err t))) = maxRetries + 1 - a"
  using assms
proof (induction "maxRetries - a" arbitrary: a err)
  case 0
  then have a: "a = maxRetries" by simp
  from "0.prems" a obtain x where x: "fst (close_attempt c e maxRetries t) = Some x"
    by blast
  show ?case
    using CloseTunnel_loop_fail_step [of maxRetries c e t x err] x
      CloseTunnel_loop_end [of "maxRetries + 1" c e "Some x" t]
    unfolding a by simp
next
  case (Suc n)
  then have lt: "a < maxRetries" by simp
  from Suc.prems obtain x where x: "fst (close_attempt c e a t) = Some x"
    by (metis le_refl not_Some_eq)
  have ih: "fst (CloseTunnel_loop c e (a + 1) (Some x) t) = fst (close_attempt c e maxRetries t) \<and>
         fst (snd (CloseTunnel_loop c e (a + 1) (Some x) t)) = t \<and>
         close_attempts (snd (snd (CloseTunnel_loop c e (a + 1) (Some x) t))) = maxRetries + 1 - (a + 1)"
    using Suc.hyps(1) [of "a + 1" "Some x"] Suc.hyps(2) Suc.prems lt by auto
  show ?case
    using CloseTunnel_loop_fail_step [of a c e t x err] x ih lt by simp
qed

lemma CloseTunnel_loop_first_stop:
  assumes "\<forall>i. a \<le> i \<and> i < k \<longrightarrow> fst (close_attempt c e i t) \<noteq> None"
    and "fst (close_attempt c e k t) = None"
    and "a \<le> k" "k \<le> maxRetries"
  shows "fst (CloseTunnel_loop c e a err t) = None \<and>
         fst (snd (CloseTunnel_loop c e a err t)) = fst (snd (close_attempt c e k t)) \<and>
         close_attempts (snd (snd (CloseTunnel_loop c e a err t))) = k + 1 - a"
  using assms
proof (induction "k - a" arbitrary: a err)
  case 0
  then have a: "a = k" by simp
  show ?case
    using CloseTunnel_loop_stop_step [of k c e t err] "0.prems" unfolding a by simp
next
  case (Suc n)
  then have lt: "a < k" by simp
  from Suc.prems lt obtain x where x: "fst (close_attempt c e a t) = Some x"
    by (metis le_refl not_Some_eq)
  have ih: "fst (CloseTunnel_loop c e (a + 1) (Some x) t) = None \<and>
         fst (snd (CloseTunnel_loop c e (a + 1) (Some x) t)) = fst (snd (close_attempt c e k t)) \<and>
         close_attempts (snd (snd (CloseTunnel_loop c e (a + 1) (Some x) t))) = k + 1 - (a + 1)"
    using Suc.hyps(1) [of "a + 1" "Some x"] Suc.hyps(2) Suc.prems lt by auto
  show ?case
    using CloseTunnel_loop_fail_step [of a c e t x err] x ih lt Suc.prems(4) by simp
qed

lemma CloseTunnel_error_all_fail:
  assumes "fst (CloseTunnel c e t) = Some x"
  shows "\<forall>i. i \<le> maxRetries \<longrightarrow> fst (close_attempt c e i t) \<noteq> None"
proof (rule ccontr)
  assume "\<not> ?thesis"
  then have ex: "\<exists>i. i \<le> maxRetries \<and> fst (close_attempt c e i t) = None"
    by auto
  define k where "k = (LEAST i. i \<le> maxRetries \<and> fst (close_attempt c e i t) = None)"
  have k: "k \<le> maxRetries \<and> fst (close_attempt c e k t) = None"
    unfolding k_def using ex by (rule LeastI_ex)
  have least: "\<And>i. i < k \<Longrightarrow> \<not> (i \<le> maxRetries \<and> fst (close_attempt c e i t) = None)"
    unfolding k_def by (rule not_less_Least)
  have before: "\<forall>i. 0 \<le> i \<and> i < k \<longrightarrow> fst (close_attempt c e i t) \<noteq> None"
    using least k by (metis le_trans less_imp_le_nat)
  have "fst (CloseTunnel c e t) = None"
    using CloseTunnel_loop_first_stop [of 0 k c e t None] before k
    by (simp add: CloseTunnel_def)
  with assms show False by simp
qed

section \<open>The retry loops as a whole\<close>

lemma maxRetries_101 [simp]: "maxRetries + 1 = 101" "Suc maxRetries = 101"
  by (simp_all add: maxRetries_def)

lemma declared_protocol:
  "p \<in> {HTTP, TCP, TLS} \<Longrightarrow> \<exists>s. Protocol_String p = Ret s"
  by (auto simp: Protocol_String_def HTTP_def TCP_def TLS_def protocols_def)

lemma api_fails_create_attempt:
  assumes "api_create_fails e" "Protocol_String (Proto t) = Ret s"
  shows "\<exists>x. fst (create_attempt c e i t) = Ret (Some x)"
proof (cases "json_Marshal e (jsonData_of s t)")
  case (Inl err)
  then show ?thesis using assms(2) by (simp add: create_attempt_def Let_def)
next
  case (Inr v)
  have "case http_Post e i (''http://'' @ WebUIAddress c @ ''/api/tunnels'') v of
          Inl err \<Rightarrow> True
        | Inr res \<Rightarrow> StatusCode res < 200 \<or> StatusCode res > 299 \<or>
                  (\<exists>err. json_Decode e (Body res) = Inl err)"
    using assms(1) unfolding api_create_fails_def by blast
  then show ?thesis using assms(2) Inr
    by (auto simp add: create_attempt_def Let_def split: sum.splits)
qed

lemma api_fails_close_attempt:
  assumes "api_close_fails e"
  shows "fst (close_attempt c e i t) \<noteq> None"
proof (cases "http_NewRequest e ''DELETE'' (''http://'' @ WebUIAddress c @ ''/api/tunnels/'' @ Name t)")
  case (Inl err)
  then show ?thesis by (simp add: close_attempt_def Let_def)
next
  case (Inr req)
  have "case client_Do e i req of
          Inl err \<Rightarrow> True
        | Inr res \<Rightarrow> StatusCode res < 200 \<or> StatusCode res > 299"
    using assms(1) unfolding api_close_fails_def by blast
  then show ?thesis using Inr
    by (auto simp add: close_attempt_def Let_def split: sum.splits)
qed

text \<open>The attempts of a call either all fail, or there is a first one that does not.\<close>

lemma first_stop_or_all_fail:
  "(\<forall>i\<le>n. P i) \<or> (\<exists>k\<le>n. (\<forall>i<k. P i) \<and> \<not> P k)" for n :: nat
proof (cases "\<forall>i\<le>n. P i")
  case True
  then show ?thesis by simp
next
  case False
  then have ex: "\<exists>i. i \<le> n \<and> \<not> P i" by auto
  define k where "k = (LEAST i. i \<le> n \<and> \<not> P i)"
  have k: "k \<le> n \<and> \<not> P k"
    unfolding k_def using ex by (rule LeastI_ex)
  have "\<And>i. i < k \<Longrightarrow> \<not> (i \<le> n \<and> \<not> P i)"
    unfolding k_def by (rule not_less_Least)
  then have "\<forall>i<k. P i" using k by auto
  with k show ?thesis by blast
qed

lemma CreateTunnel_tunnel_after:
  "(fst (CreateTunnel c e t) \<noteq> Ret None \<and> fst (snd (CreateTunnel c e t)) = t) \<or>
   (fst (CreateTunnel c e t) = Ret None \<and>
    (\<exists>body record. json_Decode e body = Inr record \<and>
       fst (snd (CreateTunnel c e t)) = t\<lparr>RemoteAddress := PublicURL record, IsCreated := True\<rparr>))"
proof -
  let ?P = "\<lambda>i. \<exists>y. fst (create_attempt c e i t) = Ret (Some y)"
  from first_stop_or_all_fail [of maxRetries ?P]
  show ?thesis
  proof
    assume all: "\<forall>i\<le>maxRetries. ?P i"
    then have "fst (CreateTunnel c e t) = fst (create_attempt c e maxRetries t) \<and>
               fst (snd (CreateTunnel c e t)) = t"
      using CreateTunnel_loop_all_fail [of 0 c e t None] by (simp add: CreateTunnel_def)
    moreover from all obtain y where "fst (create_attempt c e maxRetries t) = Ret (Some y)"
      by blast
    ultimately show ?thesis by simp
  next
    assume "\<exists>k\<le>maxRetries. (\<forall>i<k. ?P i) \<and> \<not> ?P k"
    then obtain k where k: "k \<le> maxRetries" "\<forall>i<k. ?P i" "\<not> ?P k" by blast
    have eq: "fst (CreateTunnel c e t) = fst (create_attempt c e k t) \<and>
              fst (snd (CreateTunnel c e t)) = fst (snd (create_attempt c e k t))"
      using CreateTunnel_loop_first_stop [of 0 k c e t None] k by (simp add: CreateTunnel_def)
    show ?thesis
    proof (cases "fst (create_attempt c e k t) = Ret None")
      case True
      then show ?thesis using eq create_attempt_success [of c e k t] by auto
    next
      case False
      then show ?thesis using eq create_attempt_unchanged [of c e k t] by simp
    qed
  qed
qed

lemma CloseTunnel_tunnel_after:
  "(fst (CloseTunnel c e t) \<noteq> None \<and> fst (snd (CloseTunnel c e t)) = t) \<or>
   (fst (CloseTunnel c e t) = None \<and>
    fst (snd (CloseTunnel c e t)) = t\<lparr>RemoteAddress := [], IsCreated := False\<rparr>)"
proof -
  let ?P = "\<lambda>i. fst (close_attempt c e i t) \<noteq> None"
  from first_stop_or_all_fail [of maxRetries ?P]
  show ?thesis
  proof
    assume all: "\<forall>i\<le>maxRetries. ?P i"
    then have "fst (CloseTunnel c e t) = fst (close_attempt c e maxRetries t) \<and>
               fst (snd (CloseTunnel c e t)) = t"
      using CloseTunnel_loop_all_fail [of 0 c e t None] by (simp add: CloseTunnel_def)
    then show ?thesis using all by simp
  next
    assume "\<exists>k\<le>maxRetries. (\<forall>i<k. ?P i) \<and> \<not> ?P k"
    then obtain k where k: "k \<le> maxRetries" "\<forall>i<k. ?P i" "fst (close_attempt c e k t) = None"
      by blast
    have "fst (CloseTunnel c e t) = None \<and>
          fst (snd (CloseTunnel c e t)) = fst (snd (close_attempt c e k t))"
      using CloseTunnel_loop_first_stop [of 0 k c e t None] k by (simp add: CloseTunnel_def)
    then show ?thesis using close_attempt_success [of c e k t] k(3) by simp
  qed
qed

section \<open>Protocol names\<close>

text \<open>
  C10. \<open>Protocol.String\<close> returns \<open>http\<close>, \<open>tcp\<close> and \<open>tls\<close> for the three declared
  values \<open>HTTP\<close>, \<open>TCP\<close> and \<open>TLS\<close>; for every other value of the integer type
  \<open>Protocol\<close> the index lies outside the three-element array and the call panics.
\<close>

theorem Protocol_String_total_on_declared:
  "Protocol_String HTTP = Ret ''http'' \<and> Protocol_String TCP = Ret ''tcp'' \<and>
   Protocol_String TLS = Ret ''tls'' \<and>
   (\<forall>p. p \<noteq> HTTP \<and> p \<noteq> TCP \<and> p \<noteq> TLS \<longrightarrow>
        Protocol_String p = Panic ''runtime error: index out of range'')"
  by (auto simp: Protocol_String_def HTTP_def TCP_def TLS_def protocols_def)

theorem Protocol_String_total_on_declared_witness:
  "Protocol_String HTTP = Ret ''http'' \<and> Protocol_String TCP = Ret ''tcp'' \<and>
   Protocol_String TLS = Ret ''tls'' \<and>
   (3::int) \<noteq> HTTP \<and> 3 \<noteq> TCP \<and> 3 \<noteq> TLS \<and>
   Protocol_String 3 = Panic ''runtime error: index out of range'' \<and>
   Protocol_String (- 1) = Panic ''runtime error: index out of range''"
  using Protocol_String_total_on_declared
  by (simp add: HTTP_def TCP_def TLS_def)

section \<open>The retry bound\<close>

text \<open>
  C1, as stated, fails: for a descriptor whose protocol is not one of the three declared
  values (here \<open>Protocol(3)\<close>) and a control API that refuses every connection,
  \<open>CreateTunnel\<close> panics in its first attempt, before any request: it makes one
  attempt, not 101, and returns no error.
\<close>

theorem CreateTunnel_undeclared_protocol_counterexample:
  "api_create_fails env_down \<and>
   fst (CreateTunnel sample_client env_down (sample_tunnel\<lparr>Proto := 3\<rparr>))
     = Panic ''runtime error: index out of range'' \<and>
   create_attempts (snd (snd (CreateTunnel sample_client env_down (sample_tunnel\<lparr>Proto := 3\<rparr>))))
     = 1 \<and>
   create_attempts (snd (snd (CreateTunnel sample_client env_down (sample_tunnel\<lparr>Proto := 3\<rparr>))))
     \<noteq> 101"
proof -
  let ?t = "sample_tunnel\<lparr>Proto := 3\<rparr>"
  have p: "create_attempt sample_client env_down 0 ?t =
      (Panic ''runtime error: index out of range'', ?t, [LogCreatingAttempt 0, Sleep 1])"
    by (simp add: create_attempt_def Protocol_String_def protocols_def sample_tunnel_def)
  have "\<forall>x. fst (create_attempt sample_client env_down 0 ?t) \<noteq> Ret (Some x)"
    using p by simp
  then have "fst (CreateTunnel_loop sample_client env_down 0 None ?t)
                = fst (create_attempt sample_client env_down 0 ?t) \<and>
             create_attempts (snd (snd (CreateTunnel_loop sample_client env_down 0 None ?t))) = 1"
    using CreateTunnel_loop_stop_step [of 0 sample_client env_down ?t None] by simp
  moreover have "api_create_fails env_down"
    by (simp add: api_create_fails_def env_down_def)
  ultimately show ?thesis using p by (simp add: CreateTunnel_def)
qed

text \<open>
  C1, amended. For every tunnel descriptor whose protocol is one of the three declared
  values and a control API whose every create attempt fails, \<open>CreateTunnel\<close> performs
  exactly 101 attempts and returns the error of the last one (attempt 100); for every
  tunnel descriptor and a control API whose every destroy attempt fails, so does
  \<open>CloseTunnel\<close>. Both stop at the first attempt that succeeds: when the attempts before
  attempt \<open>k\<close> fail and attempt \<open>k\<close> succeeds, exactly \<open>k + 1\<close> attempts are made and
  no error is returned.
\<close>

theorem retry_bound:
  "(Proto t \<in> {HTTP, TCP, TLS} \<and> api_create_fails e \<longrightarrow>
      create_attempts (snd (snd (CreateTunnel c e t))) = 101 \<and>
      fst (CreateTunnel c e t) = fst (create_attempt c e 100 t) \<and>
      (\<exists>x. fst (CreateTunnel c e t) = Ret (Some x))) \<and>
   (api_close_fails e \<longrightarrow>
      close_attempts (snd (snd (CloseTunnel c e t))) = 101 \<and>
      fst (CloseTunnel c e t) = fst (close_attempt c e 100 t) \<and>
      fst (CloseTunnel c e t) \<noteq> None) \<and>
   (k \<le> 100 \<and> (\<forall>i<k. \<exists>x. fst (create_attempt c e i t) = Ret (Some x)) \<and>
    fst (create_attempt c e k t) = Ret None \<longrightarrow>
      create_attempts (snd (snd (CreateTunnel c e t))) = k + 1 \<and>
      fst (CreateTunnel c e t) = Ret None) \<and>
   (k \<le> 100 \<and> (\<forall>i<k. fst (close_attempt c e i t) \<noteq> None) \<and>
    fst (close_attempt c e k t) = None \<longrightarrow>
      close_attempts (snd (snd (CloseTunnel c e t))) = k + 1 \<and>
      fst (CloseTunnel c e t) = None)"
proof (intro conjI impI)
  assume h: "Proto t \<in> {HTTP, TCP, TLS} \<and> api_create_fails e"
  then obtain s where s: "Protocol_String (Proto t) = Ret s"
    using declared_protocol by blast
  have fails: "\<forall>i. 0 \<le> i \<and> i \<le> maxRetries \<longrightarrow> (\<exists>x. fst (create_attempt c e i t) = Ret (Some x))"
    using api_fails_create_attempt [OF _ s] h by blast
  have r: "fst (CreateTunnel c e t) = fst (create_attempt c e maxRetries t) \<and>
           create_attempts (snd (snd (CreateTunnel c e t))) = maxRetries + 1 - 0"
    using CreateTunnel_loop_all_fail [OF fails, of None] by (simp add: CreateTunnel_def)
  show "create_attempts (snd (snd (CreateTunnel c e t))) = 101"
    using r by (simp add: maxRetries_def)
  show "fst (CreateTunnel c e t) = fst (create_attempt c e 100 t)"
    using r by (simp add: maxRetries_def)
  show "\<exists>x. fst (CreateTunnel c e t) = Ret (Some x)"
    using r fails by simp
next
  assume h: "api_close_fails e"
  have fails: "\<forall>i. 0 \<le> i \<and> i \<le> maxRetries \<longrightarrow> fst (close_attempt c e i t) \<noteq> None"
    using api_fails_close_attempt [OF h] by blast
  have r: "fst (CloseTunnel c e t) = fst (close_attempt c e maxRetries t) \<and>
           close_attempts (snd (snd (CloseTunnel c e t))) = maxRetries + 1 - 0"
    using CloseTunnel_loop_all_fail [OF fails, of None] by (simp add: CloseTunnel_def)
  show "close_attempts (snd (snd (CloseTunnel c e t))) = 101"
    using r by (simp add: maxRetries_def)
  show "fst (CloseTunnel c e t) = fst (close_attempt c e 100 t)"
    using r by (simp add: maxRetries_def)
  show "fst (CloseTunnel c e t) \<noteq> None"
    using r fails by simp
next
  assume h: "k \<le> 100 \<and> (\<forall>i<k. \<exists>x. fst (create_attempt c e i t) = Ret (Some x)) \<and>
    fst (create_attempt c e k t) = Ret None"
  then have r: "fst (CreateTunnel c e t) = fst (create_attempt c e k t) \<and>
                create_attempts (snd (snd (CreateTunnel c e t))) = k + 1 - 0"
    using CreateTunnel_loop_first_stop [of 0 k c e t None]
    by (simp add: CreateTunnel_def maxRetries_def)
  show "create_attempts (snd (snd (CreateTunnel c e t))) = k + 1" using r by simp
  show "fst (CreateTunnel c e t) = Ret None" using r h by simp
next
  assume h: "k \<le> 100 \<and> (\<forall>i<k. fst (close_attempt c e i t) \<noteq> None) \<and>
    fst (close_attempt c e k t) = None"
  then have r: "fst (CloseTunnel c e t) = None \<and>
                close_attempts (snd (snd (CloseTunnel c e t))) = k + 1 - 0"
    using CloseTunnel_loop_first_stop [of 0 k c e t None]
    by (simp add: CloseTunnel_def maxRetries_def)
  show "close_attempts (snd (snd (CloseTunnel c e t))) = k + 1" using r by simp
  show "fst (CloseTunnel c e t) = None" using r by simp
qed

lemma sample_flaky_create:
  "fst (create_attempt sample_client env_flaky i sample_tunnel) =
     (if i < 3 then Ret (Some ''error api: busy'') else Ret None)"
  by (simp add: create_attempt_def Let_def Protocol_String_def protocols_def
      sample_tunnel_def HTTP_def env_flaky_def)

lemma sample_flaky_close:
  "fst (close_attempt sample_client env_flaky i sample_tunnel) =
     (if i < 3 then Some ''error api: busy'' else None)"
  by (simp add: close_attempt_def Let_def env_flaky_def)

lemma sample_down_create:
  "fst (create_attempt sample_client env_down i sample_tunnel) = Ret (Some ''connection refused'')"
  by (simp add: create_attempt_def Let_def Protocol_String_def protocols_def
      sample_tunnel_def HTTP_def env_down_def)

lemma sample_down_close:
  "fst (close_attempt sample_client env_down i sample_tunnel) = Some ''connection refused''"
  by (simp add: close_attempt_def Let_def env_down_def)

theorem retry_bound_witness:
  "Proto sample_tunnel \<in> {HTTP, TCP, TLS} \<and> api_create_fails env_down \<and>
   api_close_fails env_down \<and>
   create_attempts (snd (snd (CreateTunnel sample_client env_down sample_tunnel))) = 101 \<and>
   fst (CreateTunnel sample_client env_down sample_tunnel) = Ret (Some ''connection refused'') \<and>
   close_attempts (snd (snd (CloseTunnel sample_client env_down sample_tunnel))) = 101 \<and>
   fst (CloseTunnel sample_client env_down sample_tunnel) = Some ''connection refused'' \<and>
   create_attempts (snd (snd (CreateTunnel sample_client env_flaky sample_tunnel))) = 4 \<and>
   fst (CreateTunnel sample_client env_flaky sample_tunnel) = Ret None \<and>
   close_attempts (snd (snd (CloseTunnel sample_client env_flaky sample_tunnel))) = 4 \<and>
   fst (CloseTunnel sample_client env_flaky sample_tunnel) = None"
proof -
  have h1: "Proto sample_tunnel \<in> {HTTP, TCP, TLS}"
    by (simp add: sample_tunnel_def)
  have h2: "api_create_fails env_down"
    by (simp add: api_create_fails_def env_down_def)
  have h3: "api_close_fails env_down"
    by (simp add: api_close_fails_def env_down_def)
  note down = retry_bound [of sample_tunnel env_down sample_client 0]
  note flaky = retry_bound [of sample_tunnel env_flaky sample_client 3]
  have c1: "create_attempts (snd (snd (CreateTunnel sample_client env_down sample_tunnel))) = 101 \<and>
      fst (CreateTunnel sample_client env_down sample_tunnel)
        = fst (create_attempt sample_client env_down 100 sample_tunnel)"
    using down h1 h2 by blast
  have c2: "close_attempts (snd (snd (CloseTunnel sample_client env_down sample_tunnel))) = 101 \<and>
      fst (CloseTunnel sample_client env_down sample_tunnel)
        = fst (close_attempt sample_client env_down 100 sample_tunnel)"
    using down h3 by blast
  have f1: "(3::nat) \<le> 100 \<and>
      (\<forall>i<3. \<exists>x. fst (create_attempt sample_client env_flaky i sample_tunnel) = Ret (Some x)) \<and>
      fst (create_attempt sample_client env_flaky 3 sample_tunnel) = Ret None"
    by (simp add: sample_flaky_create)
  have f2: "(3::nat) \<le> 100 \<and>
      (\<forall>i<3. fst (close_attempt sample_client env_flaky i sample_tunnel) \<noteq> None) \<and>
      fst (close_attempt sample_client env_flaky 3 sample_tunnel) = None"
    by (simp add: sample_flaky_close)
  have c3: "create_attempts (snd (snd (CreateTunnel sample_client env_flaky sample_tunnel))) = 3 + 1 \<and>
      fst (CreateTunnel sample_client env_flaky sample_tunnel) = Ret None"
    using flaky f1 by blast
  have c4: "close_attempts (snd (snd (CloseTunnel sample_client env_flaky sample_tunnel))) = 3 + 1 \<and>
      fst (CloseTunnel sample_client env_flaky sample_tunnel) = None"
    using flaky f2 by blast
  show ?thesis
    using h1 h2 h3 c1 c2 c3 c4
    by (simp add: sample_down_create sample_down_close)
qed

section \<open>Exhausted retries\<close>

text \<open>
  C5. When \<open>CreateTunnel\<close> (or \<open>CloseTunnel\<close>) exhausts its attempts without a
  success, that is, when each of the attempts 0 to 100 fails, the descriptor is left as
  it was before the call, its created flag and remote address included, and the error
  of the terminal attempt is returned. An error is returned in no other case.
\<close>

theorem exhausted_retries_leave_descriptor:
  "((\<forall>i\<le>maxRetries. \<exists>y. fst (create_attempt c e i t) = Ret (Some y)) \<longrightarrow>
      fst (snd (CreateTunnel c e t)) = t \<and>
      IsCreated (fst (snd (CreateTunnel c e t))) = IsCreated t \<and>
      RemoteAddress (fst (snd (CreateTunnel c e t))) = RemoteAddress t \<and>
      fst (CreateTunnel c e t) = fst (create_attempt c e maxRetries t)) \<and>
   ((\<forall>i\<le>maxRetries. fst (close_attempt c e i t) \<noteq> None) \<longrightarrow>
      fst (snd (CloseTunnel c e t)) = t \<and>
      IsCreated (fst (snd (CloseTunnel c e t))) = IsCreated t \<and>
      RemoteAddress (fst (snd (CloseTunnel c e t))) = RemoteAddress t \<and>
      fst (CloseTunnel c e t) = fst (close_attempt c e maxRetries t)) \<and>
   (fst (CreateTunnel c e t) = Ret (Some x) \<longrightarrow>
      (\<forall>i\<le>maxRetries. \<exists>y. fst (create_attempt c e i t) = Ret (Some y)) \<and>
      fst (snd (CreateTunnel c e t)) = t) \<and>
   (fst (CloseTunnel c e t) = Some x \<longrightarrow>
      (\<forall>i\<le>maxRetries. fst (close_attempt c e i t) \<noteq> None) \<and>
      fst (snd (CloseTunnel c e t)) = t)"
proof (intro conjI impI)
  assume all: "\<forall>i\<le>maxRetries. \<exists>y. fst (create_attempt c e i t) = Ret (Some y)"
  then have r: "fst (CreateTunnel c e t) = fst (create_attempt c e maxRetries t) \<and>
                fst (snd (CreateTunnel c e t)) = t"
    using CreateTunnel_loop_all_fail [of 0 c e t None] by (simp add: CreateTunnel_def)
  then show "fst (snd (CreateTunnel c e t)) = t"
    and "IsCreated (fst (snd (CreateTunnel c e t))) = IsCreated t"
    and "RemoteAddress (fst (snd (CreateTunnel c e t))) = RemoteAddress t"
    and "fst (CreateTunnel c e t) = fst (create_attempt c e maxRetries t)"
    by simp_all
next
  assume all: "\<forall>i\<le>maxRetries. fst (close_attempt c e i t) \<noteq> None"
  then have r: "fst (CloseTunnel c e t) = fst (close_attempt c e maxRetries t) \<and>
                fst (snd (CloseTunnel c e t)) = t"
    using CloseTunnel_loop_all_fail [of 0 c e t None] by (simp add: CloseTunnel_def)
  then show "fst (snd (CloseTunnel c e t)) = t"
    and "IsCreated (fst (snd (CloseTunnel c e t))) = IsCreated t"
    and "RemoteAddress (fst (snd (CloseTunnel c e t))) = RemoteAddress t"
    and "fst (CloseTunnel c e t) = fst (close_attempt c e maxRetries t)"
    by simp_all
next
  assume err: "fst (CreateTunnel c e t) = Ret (Some x)"
  then show "\<forall>i\<le>maxRetries. \<exists>y. fst (create_attempt c e i t) = Ret (Some y)"
    using CreateTunnel_error_all_fail [of c e t x] by blast
  show "fst (snd (CreateTunnel c e t)) = t"
    using CreateTunnel_tunnel_after [of c e t] err by auto
next
  assume err: "fst (CloseTunnel c e t) = Some x"
  then show "\<forall>i\<le>maxRetries. fst (close_attempt c e i t) \<noteq> None"
    using CloseTunnel_error_all_fail [of c e t x] by blast
  show "fst (snd (CloseTunnel c e t)) = t"
    using CloseTunnel_tunnel_after [of c e t] err by auto
qed

theorem exhausted_retries_leave_descriptor_witness:
  "(\<forall>i. fst (create_attempt sample_client env_down i sample_tunnel)
          = Ret (Some ''connection refused'')) \<and>
   (\<forall>i. fst (close_attempt sample_client env_down i sample_tunnel)
          = Some ''connection refused'') \<and>
   CreateTunnel sample_client env_down sample_tunnel
     = (Ret (Some ''connection refused''), sample_tunnel,
        snd (snd (CreateTunnel sample_client env_down sample_tunnel))) \<and>
   CloseTunnel sample_client env_down sample_tunnel
     = (Some ''connection refused'', sample_tunnel,
        snd (snd (CloseTunnel sample_client env_down sample_tunnel)))"
proof -
  note w = exhausted_retries_leave_descriptor
    [of sample_client env_down sample_tunnel "''connection refused''"]
  have c: "fst (snd (CreateTunnel sample_client env_down sample_tunnel)) = sample_tunnel \<and>
      fst (CreateTunnel sample_client env_down sample_tunnel)
        = fst (create_attempt sample_client env_down maxRetries sample_tunnel)"
    using w by (simp add: sample_down_create)
  have d: "fst (snd (CloseTunnel sample_client env_down sample_tunnel)) = sample_tunnel \<and>
      fst (CloseTunnel sample_client env_down sample_tunnel)
        = fst (close_attempt sample_client env_down maxRetries sample_tunnel)"
    using w by (simp add: sample_down_close)
  show ?thesis
    using c d by (simp add: sample_down_create sample_down_close prod_eq_iff)
qed

section \<open>The descriptor after a successful call\<close>




section \<open>The registry: helper lemmas\<close>

lemma created_calls_append [simp]:
  "created_calls (xs @ ys) = created_calls xs @ created_calls ys"
  by (induction xs rule: created_calls.induct) simp_all

lemma closed_calls_append [simp]:
  "closed_calls (xs @ ys) = closed_calls xs @ closed_calls ys"
  by (induction xs rule: closed_calls.induct) simp_all


lemma close_attempt_no_go:
  "closed_calls (snd (snd (close_attempt c e i t))) = []"
  by (simp add: close_attempt_def Let_def split: sum.split)



lemma CloseTunnel_loop_no_go:
  "closed_calls (snd (snd (CloseTunnel_loop c e a err t))) = []"
proof (induction "maxRetries + 1 - a" arbitrary: a err t)
  case 0
  then have "\<not> a \<le> maxRetries" by (simp add: maxRetries_def)
  then show ?case by (simp add: CloseTunnel_loop_end)
next
  case (Suc n)
  then have le: "a \<le> maxRetries" by (simp add: maxRetries_def)
  obtain err' t' ev where p: "close_attempt c e a t = (err', t', ev)"
    by (cases "close_attempt c e a t") auto
  have ev: "closed_calls ev = []"
    using close_attempt_no_go [of c e a t] p by simp
  have ih: "closed_calls (snd (snd (CloseTunnel_loop c e (a + 1) err' t'))) = []"
    using Suc.hyps(1) [of "a + 1" err' t'] Suc.hyps(2) by (simp add: maxRetries_def)
  show ?case
    using le p ev ih
    by (subst CloseTunnel_loop.simps) (auto simp add: split_beta split: option.split)
qed









section \<open>Bulk connect\<close>







section \<open>Bulk operations on an empty registry\<close>

text \<open>
  C8. On an empty registry \<open>ConnectAll\<close> returns the error ``need at least 1 tunnel to
  connect'' and \<open>DisconnectAll\<close> the error ``need at least 1 tunnel to disconnect''; both
  only write their log line: no call to the control API is made, no \<open>CreateTunnel\<close> or
  \<open>CloseTunnel\<close> is started, and the heap is left as it was.
\<close>

theorem empty_registry_needs_tunnel:
  "Tunnel c = [] \<Longrightarrow>
   ConnectAll c envs h
     = (Ret (Some ''need at least 1 tunnel to connect''), h, [LogPrintln ''Connecting'']) \<and>
   filter is_network_call (snd (snd (ConnectAll c envs h))) = [] \<and>
   created_calls (snd (snd (ConnectAll c envs h))) = [] \<and>
   create_attempts (snd (snd (ConnectAll c envs h))) = 0 \<and>
   DisconnectAll c lag envs h
     = (Some ''need at least 1 tunnel to disconnect'', h, [LogPrintln ''Disconnecting'']) \<and>
   filter is_network_call (snd (snd (DisconnectAll c lag envs h))) = [] \<and>
   closed_calls (snd (snd (DisconnectAll c lag envs h))) = [] \<and>
   close_attempts (snd (snd (DisconnectAll c lag envs h))) = 0"
  by (simp add: ConnectAll_def DisconnectAll_def)

theorem empty_registry_needs_tunnel_witness:
  "Tunnel sample_client = [] \<and>
   fst (ConnectAll sample_client (\<lambda>i. env_up) sample_heap)
     = Ret (Some ''need at least 1 tunnel to connect'') \<and>
   filter is_network_call (snd (snd (ConnectAll sample_client (\<lambda>i. env_up) sample_heap))) = [] \<and>
   fst (DisconnectAll sample_client (\<lambda>i. 0) (\<lambda>i. env_up) sample_heap_created)
     = Some ''need at least 1 tunnel to disconnect'' \<and>
   filter is_network_call
     (snd (snd (DisconnectAll sample_client (\<lambda>i. 0) (\<lambda>i. env_up) sample_heap_created))) = []"
proof -
  have e: "Tunnel sample_client = []" by (simp add: sample_client_def)
  show ?thesis
    using empty_registry_needs_tunnel [OF e, where envs = "\<lambda>i. env_up" and h = sample_heap]
      empty_registry_needs_tunnel
        [OF e, where lag = "\<lambda>i. 0" and envs = "\<lambda>i. env_up" and h = sample_heap_created] e
    by simp
qed

section \<open>Terminating a controller that was never started\<close>

text \<open>
  C9, as stated, fails: on a controller whose supervisor was never started
  (\<open>runningCmd\<close> is nil), \<open>Close\<close> and \<open>Signal\<close> return no error to the caller: they
  panic.
\<close>

theorem Close_never_started_counterexample:
  "runningCmd sample_client = None \<and>
   Close (\<lambda>p. Ret None) sample_client = Panic nil_dereference \<and>
   (\<forall>err. Close (\<lambda>p. Ret None) sample_client \<noteq> Ret (Some err)) \<and>
   Signal (\<lambda>p s. Ret None) sample_client 15 = Panic nil_dereference \<and>
   (\<forall>err. Signal (\<lambda>p s. Ret None) sample_client 15 \<noteq> Ret (Some err))"
  by (simp add: Close_def Signal_def sample_client_def)

text \<open>
  C9, amended. On a controller whose supervisor was never started (\<open>runningCmd\<close> is
  nil), \<open>Close\<close> and \<open>Signal\<close> panic with a nil pointer dereference and return nothing
  to the caller; on a controller that holds a command they hand its \<open>Process\<close> to
  \<open>Process.Kill\<close> and \<open>Process.Signal\<close> and return what these return.
\<close>

theorem Close_Signal_without_process:
  "(runningCmd c = None \<longrightarrow>
      Close kill c = Panic nil_dereference \<and> Signal signal c s = Panic nil_dereference) \<and>
   (runningCmd c = Some cmd \<longrightarrow>
      Close kill c = kill (Process cmd) \<and> Signal signal c s = signal (Process cmd) s)"
  by (simp add: Close_def Signal_def)

theorem Close_Signal_without_process_witness:
  "runningCmd sample_client = None \<and>
   Close (\<lambda>p. Ret (Some ''os: process already finished'')) sample_client = Panic nil_dereference \<and>
   Signal (\<lambda>p s. Ret None) sample_client 2 = Panic nil_dereference \<and>
   Close (\<lambda>p. Ret (Some ''os: process already finished''))
     (sample_client\<lparr>runningCmd := Some \<lparr>Path = ''ngrok'', Args = [], Process = Some \<lparr>Pid = 7\<rparr>\<rparr>\<rparr>)
     = Ret (Some ''os: process already finished'') \<and>
   Signal (\<lambda>p s. Ret None)
     (sample_client\<lparr>runningCmd := Some \<lparr>Path = ''ngrok'', Args = [], Process = Some \<lparr>Pid = 7\<rparr>\<rparr>\<rparr>) 2
     = Ret None"
proof -
  have n: "runningCmd sample_client = None" by (simp add: sample_client_def)
  show ?thesis
    using Close_Signal_without_process
        [where c = sample_client and kill = "\<lambda>p. Ret (Some ''os: process already finished'')"
           and signal = "\<lambda>p s. Ret None" and s = 2]
      Close_Signal_without_process
        [where c = "sample_client\<lparr>runningCmd :=
                      Some \<lparr>Path = ''ngrok'', Args = [], Process = Some \<lparr>Pid = 7\<rparr>\<rparr>\<rparr>"
           and cmd = "\<lparr>Path = ''ngrok'', Args = [], Process = Some \<lparr>Pid = 7\<rparr>\<rparr>"
           and kill = "\<lambda>p. Ret (Some ''os: process already finished'')"
           and signal = "\<lambda>p s. Ret None" and s = 2] n
    by simp
qed

lemma CloseTunnel_no_go:
  "closed_calls (snd (snd (CloseTunnel c e t))) = []"
  by (simp add: CloseTunnel_def CloseTunnel_loop_no_go)

lemma env_up_CloseTunnel:
  "fst (CloseTunnel c env_up t) = None \<and>
   fst (snd (CloseTunnel c env_up t)) = t\<lparr>RemoteAddress := [], IsCreated := False\<rparr>"
proof -
  have a: "fst (close_attempt c env_up 0 t) = None"
    by (simp add: close_attempt_def Let_def env_up_def)
  then have "fst (CloseTunnel c env_up t) = None"
    using CloseTunnel_loop_first_stop [of 0 0 c env_up t None] by (simp add: CloseTunnel_def)
  then show ?thesis using CloseTunnel_tunnel_after [of c env_up t] by simp
qed

section \<open>Bulk disconnect\<close>

text \<open>
  C3. The goroutines of \<open>DisconnectAll\<close> read the loop variable when they run. With the
  registry of the two created descriptors \<open>a\<close> and \<open>b\<close> and both goroutines running
  after the loop has reached its last iteration, \<open>CloseTunnel\<close> is called twice on
  \<open>b\<close> and never on \<open>a\<close>: \<open>DisconnectAll\<close> returns success and \<open>a\<close> is still created.
  Only when each goroutine reads the variable within its own iteration is every created
  descriptor the one passed to its own call.
\<close>

theorem DisconnectAll_shared_loop_variable:
  "Tunnel sample_registry = [0, 1] \<and>
   IsCreated (sample_heap_created 0) \<and> IsCreated (sample_heap_created 1) \<and>
   fst (DisconnectAll sample_registry (\<lambda>i. 1) (\<lambda>i. env_up) sample_heap_created) = None \<and>
   closed_calls (snd (snd (DisconnectAll sample_registry (\<lambda>i. 1) (\<lambda>i. env_up)
                             sample_heap_created))) = [1, 1] \<and>
   IsCreated (fst (snd (DisconnectAll sample_registry (\<lambda>i. 1) (\<lambda>i. env_up)
                          sample_heap_created)) 0) \<and>
   \<not> IsCreated (fst (snd (DisconnectAll sample_registry (\<lambda>i. 1) (\<lambda>i. env_up)
                            sample_heap_created)) 1) \<and>
   closed_calls (snd (snd (DisconnectAll sample_registry (\<lambda>i. 0) (\<lambda>i. env_up)
                             sample_heap_created))) = [0, 1] \<and>
   \<not> IsCreated (fst (snd (DisconnectAll sample_registry (\<lambda>i. 0) (\<lambda>i. env_up)
                            sample_heap_created)) 0)"
  by (simp add: DisconnectAll_def sample_registry_def sample_heap_created_def upt_rec Let_def
      split_beta CloseTunnel_no_go env_up_CloseTunnel)

section \<open>Matching: helper lemmas\<close>























section \<open>The read loop: helper lemmas\<close>

lemma ready_sends_simps [simp]:
  "ready_sends [] = 0"
  "ready_sends (ClientBinLog s # ev) = ready_sends ev"
  "ready_sends (ServerClientReady # ev) = ready_sends ev"
  "ready_sends (IsReadySend # ev) = Suc (ready_sends ev)"
  "ready_sends (ev @ ev') = ready_sends ev + ready_sends ev'"
  by (simp_all add: ready_sends_def)




section \<open>Readiness\<close>






section \<open>A chunk with both the ready marker and the in-use marker\<close>





end
